theory Spec2Isabelle
  imports Main "HOL-Library.Sublist"
begin

section \<open>The structify Linux plugin: method dispatcher\<close>

text \<open>
  The development embeds \<^verbatim>\<open>src/linux/structify_plugin.cc\<close>: the handler
  \<^verbatim>\<open>structify_plugin_handle_method_call\<close> and the function
  \<^verbatim>\<open>get_platform_version\<close>. The Flutter embedder, GLib and the C library are
  collaborators of the plugin; the few values and calls of theirs that the two functions
  touch are given below, each next to the C it stands for.
\<close>

subsection \<open>Values and responses of the method channel\<close>

text \<open>
  \<^verbatim>\<open>FlValue\<close> is the embedder's tagged union of channel values. The plugin builds
  only string values (\<^verbatim>\<open>fl_value_new_string\<close>); the other tags are what an argument
  payload may hold.
\<close>

datatype FlValue =
    FlNull
  | FlBool bool
  | FlInt int
  | FlString string
  | FlList "FlValue list"
  | FlMap "(FlValue \<times> FlValue) list"

text \<open>
  \<^verbatim>\<open>FlMethodResponse\<close> has three concrete classes: success, error and
  not-implemented. The error class takes a code, a message and details.
\<close>

datatype FlMethodResponse =
    FlMethodSuccessResponse FlValue
  | FlMethodErrorResponse string string FlValue
  | FlMethodNotImplementedResponse

text \<open>A \<^verbatim>\<open>FlMethodCall\<close> pairs the method's name with its argument payload.\<close>

record FlMethodCall =
  method_name :: string
  method_args :: FlValue

text \<open>
  \<^verbatim>\<open>struct _StructifyPlugin { GObject parent_instance; };\<close>: the plugin object has
  no field of its own.
\<close>

datatype StructifyPlugin = StructifyPlugin

subsection \<open>The kernel query\<close>

text \<open>
  \<^verbatim>\<open>struct utsname\<close> of \<^verbatim>\<open><sys/utsname.h>\<close>: six character arrays. A member is
  represented by the C string it holds, that is, the bytes before its first NUL.
\<close>

record utsname =
  sysname :: string
  nodename :: string
  release :: string
  version :: string
  machine :: string
  domainname :: string

text \<open>
  \<^verbatim>\<open>struct utsname uname_data = {};\<close> value-initialises the struct: every byte of
  every member is zero, so every member holds the empty string.
\<close>

definition utsname_zero :: utsname where
  "utsname_zero =
     \<lparr>sysname = [], nodename = [], release = [], version = [], machine = [],
      domainname = []\<rparr>"

text \<open>
  The system call \<^verbatim>\<open>int uname(struct utsname *buf)\<close> is a parameter of the model:
  any function from the buffer's contents before the call to the return code and the
  buffer's contents after it. Zero is success; a failing call returns \<open>-1\<close>.
\<close>

type_synonym uname_syscall = "utsname \<Rightarrow> int \<times> utsname"

text \<open>
  The effects of the plugin are the system call it makes and the response it hands to
  the channel. Both are recorded, in order, in the trace of the world the code runs in.
\<close>

datatype event =
    Sys_uname int
  | Respond FlMethodCall "FlMethodResponse option"

record world =
  kernel :: uname_syscall
  trace :: "event list"

definition uname :: "world \<Rightarrow> utsname \<Rightarrow> (int \<times> utsname) \<times> world" where
  "uname w buf =
     (let (rc, buf') = kernel w buf
      in ((rc, buf'), w\<lparr>trace := trace w @ [Sys_uname rc]\<rparr>))"

subsection \<open>Library calls\<close>

text \<open>
  \<^verbatim>\<open>strcmp\<close> on two C strings. The C standard fixes the sign of the result only:
  negative, zero or positive as the first string is less than, equal to or greater than
  the second, bytes compared as \<^verbatim>\<open>unsigned char\<close>.
\<close>

fun strcmp :: "string \<Rightarrow> string \<Rightarrow> int" where
  "strcmp [] [] = 0"
| "strcmp [] (y # ys) = - 1"
| "strcmp (x # xs) [] = 1"
| "strcmp (x # xs) (y # ys) =
     (if x = y then strcmp xs ys
      else if (of_char x :: nat) < of_char y then - 1 else 1)"

text \<open>
  \<^verbatim>\<open>g_strdup_printf\<close> with string arguments. Only the \<^verbatim>\<open>%s\<close> directive is
  interpreted, the one directive of the source's format; it is replaced by the next
  argument. Every other byte of the format is copied.
\<close>

fun g_strdup_printf :: "string \<Rightarrow> string list \<Rightarrow> string" where
  "g_strdup_printf [] as = []"
| "g_strdup_printf [c] as = [c]"
| "g_strdup_printf (c # d # cs) as =
     (if c = CHR ''%'' \<and> d = CHR ''s''
      then (case as of
              [] \<Rightarrow> g_strdup_printf cs []
            | a # as' \<Rightarrow> a @ g_strdup_printf cs as')
      else c # g_strdup_printf (d # cs) as)"

definition fl_value_new_string :: "string \<Rightarrow> FlValue" where
  "fl_value_new_string s = FlString s"

definition fl_method_success_response_new :: "FlValue \<Rightarrow> FlMethodResponse" where
  "fl_method_success_response_new result = FlMethodSuccessResponse result"

definition fl_method_not_implemented_response_new :: FlMethodResponse where
  "fl_method_not_implemented_response_new = FlMethodNotImplementedResponse"

definition fl_method_call_get_name :: "FlMethodCall \<Rightarrow> string" where
  "fl_method_call_get_name method_call = method_name method_call"

text \<open>
  \<^verbatim>\<open>fl_method_call_respond(method_call, response, nullptr)\<close> hands the response
  pointer, which may be null, to the channel.
\<close>

definition fl_method_call_respond ::
  "world \<Rightarrow> FlMethodCall \<Rightarrow> FlMethodResponse option \<Rightarrow> world" where
  "fl_method_call_respond w method_call response =
     w\<lparr>trace := trace w @ [Respond method_call response]\<rparr>"

subsection \<open>The plugin\<close>

text \<open>
  \<^verbatim>\<open>
  FlMethodResponse* get_platform_version() {
    struct utsname uname_data = {};
    uname(&uname_data);
    g_autofree gchar *version = g_strdup_printf("Linux %s", uname_data.version);
    g_autoptr(FlValue) result = fl_value_new_string(version);
    return FL_METHOD_RESPONSE(fl_method_success_response_new(result));
  }
  \<close>
  The return code of \<^verbatim>\<open>uname\<close> is dropped, as in the source.
\<close>

definition get_platform_version :: "world \<Rightarrow> FlMethodResponse \<times> world" where
  "get_platform_version w =
     (let uname_data = utsname_zero;
          ((rc, uname_data), w) = uname w uname_data;
          version_s = g_strdup_printf ''Linux %s'' [version uname_data];
          result = fl_value_new_string version_s
      in (fl_method_success_response_new result, w))"

text \<open>
  \<^verbatim>\<open>
  static void structify_plugin_handle_method_call(
      StructifyPlugin* self, FlMethodCall* method_call) {
    g_autoptr(FlMethodResponse) response = nullptr;
    const gchar* method = fl_method_call_get_name(method_call);
    if (strcmp(method, "getPlatformVersion") == 0) {
      response = get_platform_version();
    } else {
      response = FL_METHOD_RESPONSE(fl_method_not_implemented_response_new());
    }
    fl_method_call_respond(method_call, response, nullptr);
  }
  \<close>
\<close>

definition structify_plugin_handle_method_call ::
  "StructifyPlugin \<Rightarrow> world \<Rightarrow> FlMethodCall \<Rightarrow> world" where
  "structify_plugin_handle_method_call self w method_call =
     (let response = (None :: FlMethodResponse option);
          method = fl_method_call_get_name method_call;
          (response, w) =
            (if strcmp method ''getPlatformVersion'' = 0
             then (let (r, w') = get_platform_version w in (Some r, w'))
             else (Some fl_method_not_implemented_response_new, w))
      in fl_method_call_respond w method_call response)"

subsection \<open>Reading a trace\<close>

fun responses_of :: "event list \<Rightarrow> (FlMethodCall \<times> FlMethodResponse option) list" where
  "responses_of [] = []"
| "responses_of (Sys_uname rc # es) = responses_of es"
| "responses_of (Respond c r # es) = (c, r) # responses_of es"

fun uname_calls_of :: "event list \<Rightarrow> int list" where
  "uname_calls_of [] = []"
| "uname_calls_of (Sys_uname rc # es) = rc # uname_calls_of es"
| "uname_calls_of (Respond c r # es) = uname_calls_of es"

text \<open>The events that handling one call adds to the trace.\<close>

definition new_events :: "StructifyPlugin \<Rightarrow> world \<Rightarrow> FlMethodCall \<Rightarrow> event list" where
  "new_events self w method_call =
     drop (length (trace w)) (trace (structify_plugin_handle_method_call self w method_call))"

text \<open>What the struct holds after the call \<^verbatim>\<open>uname(&uname_data)\<close>.\<close>

abbreviation reported :: "world \<Rightarrow> utsname" where
  "reported w \<equiv> snd (kernel w utsname_zero)"

subsection \<open>Some hosts\<close>

text \<open>A world that has seen no event yet, over a given kernel.\<close>

definition boot :: "uname_syscall \<Rightarrow> world" where
  "boot k = \<lparr>kernel = k, trace = []\<rparr>"

text \<open>A kernel whose query succeeds and reports a Linux system.\<close>

definition linux_kernel :: uname_syscall where
  "linux_kernel buf =
     (0, \<lparr>sysname = ''Linux'', nodename = ''box'', release = ''6.1.0'',
          version = ''#1 SMP'', machine = ''x86_64'', domainname = ''(none)''\<rparr>)"

text \<open>A kernel whose query succeeds and reports another system name.\<close>

definition hurd_kernel :: uname_syscall where
  "hurd_kernel buf =
     (0, \<lparr>sysname = ''GNU'', nodename = ''box'', release = ''0.9'',
          version = ''GNU-Mach'', machine = ''i686-AT386'', domainname = ''(none)''\<rparr>)"

text \<open>A kernel whose query fails and leaves the buffer as it found it.\<close>

definition failing_kernel :: uname_syscall where
  "failing_kernel buf = (- 1, buf)"

text \<open>A kernel that writes the Linux data and yet reports failure.\<close>

definition flaky_kernel :: uname_syscall where
  "flaky_kernel buf = (- 1, snd (linux_kernel buf))"

text \<open>What a struct that was never initialised might hold.\<close>

definition garbage :: utsname where
  "garbage =
     \<lparr>sysname = ''?'', nodename = ''?'', release = ''?'', version = ''junk'',
      machine = ''?'', domainname = ''?''\<rparr>"

definition gpv_call :: "FlValue \<Rightarrow> FlMethodCall" where
  "gpv_call a = \<lparr>method_name = ''getPlatformVersion'', method_args = a\<rparr>"

definition foo_call :: FlMethodCall where
  "foo_call = \<lparr>method_name = ''foo'', method_args = FlNull\<rparr>"

section \<open>Basic facts\<close>

lemma strcmp_eq_0_iff: "strcmp a b = 0 \<longleftrightarrow> a = b"
  by (induction a b rule: strcmp.induct) auto

lemma printf_Linux: "g_strdup_printf ''Linux %s'' [v] = ''Linux '' @ v"
  by simp

lemma responses_of_append:
  "responses_of (es @ fs) = responses_of es @ responses_of fs"
  by (induction es rule: responses_of.induct) auto

lemma uname_calls_of_append:
  "uname_calls_of (es @ fs) = uname_calls_of es @ uname_calls_of fs"
  by (induction es rule: uname_calls_of.induct) auto

lemma get_platform_version_eq:
  "get_platform_version w =
     (FlMethodSuccessResponse (FlString (''Linux '' @ version (snd (kernel w utsname_zero)))),
      w\<lparr>trace := trace w @ [Sys_uname (fst (kernel w utsname_zero))]\<rparr>)"
  unfolding get_platform_version_def uname_def fl_value_new_string_def
    fl_method_success_response_new_def Let_def
  by (simp add: case_prod_unfold)

lemma handle_known:
  "structify_plugin_handle_method_call self w (gpv_call a) =
     w\<lparr>trace := trace w @
        [Sys_uname (fst (kernel w utsname_zero)),
         Respond (gpv_call a)
           (Some (FlMethodSuccessResponse
              (FlString (''Linux '' @ version (snd (kernel w utsname_zero))))))]\<rparr>"
  unfolding structify_plugin_handle_method_call_def fl_method_call_get_name_def
    fl_method_call_respond_def Let_def
  by (simp add: gpv_call_def get_platform_version_eq)

lemma handle_unknown:
  assumes "method_name mc \<noteq> ''getPlatformVersion''"
  shows "structify_plugin_handle_method_call self w mc =
     w\<lparr>trace := trace w @ [Respond mc (Some FlMethodNotImplementedResponse)]\<rparr>"
  using assms
  unfolding structify_plugin_handle_method_call_def fl_method_call_get_name_def
    fl_method_call_respond_def fl_method_not_implemented_response_new_def Let_def
  by (simp add: strcmp_eq_0_iff)

lemma gpv_call_eq:
  "method_name mc = ''getPlatformVersion'' \<Longrightarrow> mc = gpv_call (method_args mc)"
  by (cases mc) (simp add: gpv_call_def)

lemma new_events_known:
  "new_events self w (gpv_call a) =
     [Sys_uname (fst (kernel w utsname_zero)),
      Respond (gpv_call a)
        (Some (FlMethodSuccessResponse (FlString (''Linux '' @ version (reported w)))))]"
  by (simp add: new_events_def handle_known)

lemma new_events_unknown:
  "method_name mc \<noteq> ''getPlatformVersion'' \<Longrightarrow>
   new_events self w mc = [Respond mc (Some FlMethodNotImplementedResponse)]"
  by (simp add: new_events_def handle_unknown)

lemma trace_handle:
  "trace (structify_plugin_handle_method_call self w mc) = trace w @ new_events self w mc"
proof (cases "method_name mc = ''getPlatformVersion''")
  case True
  then have "mc = gpv_call (method_args mc)" by (rule gpv_call_eq)
  then obtain a where "mc = gpv_call a" ..
  then show ?thesis by (simp add: new_events_def handle_known)
next
  case False
  then show ?thesis by (simp add: new_events_def handle_unknown)
qed

lemma kernel_handle:
  "kernel (structify_plugin_handle_method_call self w mc) = kernel w"
proof (cases "method_name mc = ''getPlatformVersion''")
  case True
  then have "mc = gpv_call (method_args mc)" by (rule gpv_call_eq)
  then obtain a where "mc = gpv_call a" ..
  then show ?thesis by (simp add: handle_known)
next
  case False
  then show ?thesis by (simp add: handle_unknown)
qed

lemma boot_simps: "kernel (boot k) = k" "trace (boot k) = []"
  by (simp_all add: boot_def)

lemma gpv_call_simps:
  "method_name (gpv_call a) = ''getPlatformVersion''" "method_args (gpv_call a) = a"
  by (simp_all add: gpv_call_def)

lemma foo_call_simps: "method_name foo_call = ''foo''" "method_args foo_call = FlNull"
  by (simp_all add: foo_call_def)

lemma Linux_prefix_iff:
  "(''Linux '' @ v = s @ '' '' @ v) \<longleftrightarrow> s = ''Linux''"
proof -
  have "''Linux '' @ v = ''Linux'' @ ('' '' @ v)" by simp
  then show ?thesis by (metis append_same_eq)
qed

section \<open>The dispatcher on the known method\<close>

text \<open>
  C1, as stated: a call named \<open>getPlatformVersion\<close> is answered with the kernel's
  name and version, formatted as \<open><OS-name> <version>\<close>. That fails where the kernel
  reports a system name other than \<open>Linux\<close>: the source's format is
  \<^verbatim>\<open>"Linux %s"\<close>, and the kernel's \<^verbatim>\<open>sysname\<close> is never read. On a kernel
  reporting \<open>GNU\<close> and the version \<open>GNU-Mach\<close> the answer is \<open>Linux GNU-Mach\<close>, not
  \<open>GNU GNU-Mach\<close>.
\<close>

theorem os_name_not_queried_counterexample:
  "new_events StructifyPlugin (boot hurd_kernel) (gpv_call FlNull) =
     [Sys_uname 0,
      Respond (gpv_call FlNull)
        (Some (FlMethodSuccessResponse (FlString ''Linux GNU-Mach'')))]
   \<and> sysname (reported (boot hurd_kernel)) @ '' '' @ version (reported (boot hurd_kernel))
       = ''GNU GNU-Mach''
   \<and> new_events StructifyPlugin (boot hurd_kernel) (gpv_call FlNull) \<noteq>
     [Sys_uname 0,
      Respond (gpv_call FlNull)
        (Some (FlMethodSuccessResponse (FlString
           (sysname (reported (boot hurd_kernel)) @ '' '' @
            version (reported (boot hurd_kernel))))))]"
  by (simp add: new_events_known boot_simps hurd_kernel_def)

text \<open>
  C1, amended: a call named exactly \<open>getPlatformVersion\<close> makes one \<^verbatim>\<open>uname\<close>
  query and is answered with one success response wrapping the single string
  \<open>Linux <version>\<close>, where \<open>Linux\<close> is the literal of the format and \<open><version>\<close> is
  the \<^verbatim>\<open>version\<close> member the query left in the struct. That string is
  \<open><OS-name> <version>\<close> exactly when the kernel reports the system name \<open>Linux\<close>.
\<close>

theorem dispatcher_platform_version:
  assumes "method_name mc = ''getPlatformVersion''"
  shows "new_events self w mc =
     [Sys_uname (fst (kernel w utsname_zero)),
      Respond mc
        (Some (FlMethodSuccessResponse (FlString (''Linux '' @ version (reported w)))))]
   \<and> ((''Linux '' @ version (reported w) =
        sysname (reported w) @ '' '' @ version (reported w))
       \<longleftrightarrow> sysname (reported w) = ''Linux'')"
proof -
  from assms have "mc = gpv_call (method_args mc)" by (rule gpv_call_eq)
  then obtain a where mc: "mc = gpv_call a" ..
  show ?thesis unfolding mc by (simp only: new_events_known Linux_prefix_iff simp_thms)
qed

theorem dispatcher_platform_version_witness:
  "method_name (gpv_call FlNull) = ''getPlatformVersion''
   \<and> new_events StructifyPlugin (boot linux_kernel) (gpv_call FlNull) =
     [Sys_uname 0,
      Respond (gpv_call FlNull) (Some (FlMethodSuccessResponse (FlString ''Linux #1 SMP'')))]
   \<and> sysname (reported (boot linux_kernel)) @ '' '' @ version (reported (boot linux_kernel))
       = ''Linux #1 SMP''"
  using dispatcher_platform_version [of "gpv_call FlNull" StructifyPlugin "boot linux_kernel"]
  by (simp add: gpv_call_simps boot_simps linux_kernel_def)

section \<open>The dispatcher on every other method\<close>

text \<open>
  C2: a call whose name is any string other than \<open>getPlatformVersion\<close> is answered
  with the fixed not-implemented response, and with nothing else: no kernel query is
  made. That is the only distinguished condition: no call is ever answered with an
  error response, and a not-implemented response is given to no call of the known name.
\<close>

theorem dispatcher_not_implemented:
  "(method_name mc \<noteq> ''getPlatformVersion'' \<longrightarrow>
      new_events self w mc = [Respond mc (Some FlMethodNotImplementedResponse)])
   \<and> (Respond mc (Some FlMethodNotImplementedResponse) \<in> set (new_events self w mc) \<longrightarrow>
      method_name mc \<noteq> ''getPlatformVersion'')
   \<and> (\<forall>c code msg details.
        Respond c (Some (FlMethodErrorResponse code msg details)) \<notin> set (new_events self w mc))"
proof (cases "method_name mc = ''getPlatformVersion''")
  case True
  then have "mc = gpv_call (method_args mc)" by (rule gpv_call_eq)
  then obtain a where mc: "mc = gpv_call a" ..
  show ?thesis unfolding mc by (simp add: new_events_known gpv_call_simps)
next
  case False
  then show ?thesis by (simp add: new_events_unknown)
qed

theorem dispatcher_not_implemented_witness:
  "method_name foo_call \<noteq> ''getPlatformVersion''
   \<and> new_events StructifyPlugin (boot linux_kernel) foo_call =
       [Respond foo_call (Some FlMethodNotImplementedResponse)]
   \<and> Respond foo_call (Some FlMethodNotImplementedResponse)
       \<in> set (new_events StructifyPlugin (boot linux_kernel) foo_call)"
  using dispatcher_not_implemented [of foo_call StructifyPlugin "boot linux_kernel"]
  by (simp add: foo_call_simps)

section \<open>The payload\<close>

text \<open>
  C3, as stated: the payload of the answer to \<open>getPlatformVersion\<close> holds \<open>Linux\<close>
  followed by a version token. Where the query leaves the \<^verbatim>\<open>version\<close> member empty,
  as a failing query that writes nothing does, the payload is \<open>Linux\<close> and a space,
  and no token follows.
\<close>

theorem version_token_missing_counterexample:
  "new_events StructifyPlugin (boot failing_kernel) (gpv_call FlNull) =
     [Sys_uname (- 1),
      Respond (gpv_call FlNull) (Some (FlMethodSuccessResponse (FlString ''Linux '')))]
   \<and> version (reported (boot failing_kernel)) = []
   \<and> drop (length ''Linux '') ''Linux '' = []"
  by (simp add: new_events_known boot_simps failing_kernel_def utsname_zero_def)

text \<open>
  C3, amended: calling the dispatcher with \<open>getPlatformVersion\<close> yields a success
  response whose payload is a non-empty string that starts with \<open>Linux\<close> and a space
  (so it contains the substring \<open>Linux\<close>), followed by exactly the \<^verbatim>\<open>version\<close>
  member the query left in the struct; a version token follows whenever that member is
  not empty.
\<close>

theorem platform_version_payload:
  assumes "method_name mc = ''getPlatformVersion''"
  shows "(let p = ''Linux '' @ version (reported w) in
      responses_of (new_events self w mc) = [(mc, Some (FlMethodSuccessResponse (FlString p)))]
      \<and> p \<noteq> []
      \<and> sublist ''Linux'' p
      \<and> prefix ''Linux '' p
      \<and> drop (length ''Linux '') p = version (reported w)
      \<and> (version (reported w) \<noteq> [] \<longrightarrow> (\<exists>tok. tok \<noteq> [] \<and> p = ''Linux '' @ tok)))"
proof -
  from assms have "mc = gpv_call (method_args mc)" by (rule gpv_call_eq)
  then obtain a where mc: "mc = gpv_call a" ..
  have sub: "sublist ''Linux'' (''Linux '' @ version (reported w))"
  proof -
    have "''Linux '' @ version (reported w) = [] @ ''Linux'' @ ('' '' @ version (reported w))"
      by simp
    then show ?thesis unfolding sublist_def by blast
  qed
  have pre: "prefix ''Linux '' (''Linux '' @ version (reported w))"
    by (rule prefixI) (rule refl)
  have rest: "drop (length ''Linux '') (''Linux '' @ version (reported w)) = version (reported w)"
    by simp
  have resp: "responses_of (new_events self w mc) =
      [(mc, Some (FlMethodSuccessResponse (FlString (''Linux '' @ version (reported w)))))]"
    unfolding mc by (simp add: new_events_known)
  show ?thesis
    unfolding Let_def using sub pre rest resp by blast
qed

theorem platform_version_payload_witness:
  "method_name (gpv_call FlNull) = ''getPlatformVersion''
   \<and> responses_of (new_events StructifyPlugin (boot linux_kernel) (gpv_call FlNull)) =
       [(gpv_call FlNull, Some (FlMethodSuccessResponse (FlString ''Linux #1 SMP'')))]
   \<and> version (reported (boot linux_kernel)) \<noteq> []
   \<and> (\<exists>tok. tok \<noteq> [] \<and> ''Linux #1 SMP'' = ''Linux '' @ tok)"
  using platform_version_payload [of "gpv_call FlNull" "boot linux_kernel" StructifyPlugin]
  by (simp add: gpv_call_simps boot_simps linux_kernel_def Let_def)

text \<open>
  C9: the success payload of \<^verbatim>\<open>get_platform_version\<close> begins with the literal
  prefix \<open>Linux\<close> and a space, and the rest of it is exactly the \<^verbatim>\<open>version\<close> member
  of the struct after the query. The prefix is not read from the kernel: replacing the
  system name the kernel reports by any other leaves the response as it was.
\<close>

theorem platform_version_prefix_literal:
  "fst (get_platform_version w) =
     FlMethodSuccessResponse (FlString (''Linux '' @ version (reported w)))
   \<and> prefix ''Linux '' (''Linux '' @ version (reported w))
   \<and> drop (length ''Linux '') (''Linux '' @ version (reported w)) = version (reported w)
   \<and> fst (get_platform_version
        (w\<lparr>kernel := \<lambda>buf. (fst (kernel w buf), (snd (kernel w buf))\<lparr>sysname := s\<rparr>)\<rparr>))
       = fst (get_platform_version w)"
proof -
  have "prefix ''Linux '' (''Linux '' @ version (reported w))"
    by (rule prefixI) (rule refl)
  then show ?thesis by (simp add: get_platform_version_eq)
qed

theorem platform_version_prefix_literal_witness:
  "fst (get_platform_version (boot hurd_kernel)) =
     FlMethodSuccessResponse (FlString ''Linux GNU-Mach'')
   \<and> sysname (reported (boot hurd_kernel)) = ''GNU''
   \<and> version (reported (boot hurd_kernel)) = ''GNU-Mach''"
  using platform_version_prefix_literal [of "boot hurd_kernel"]
  by (simp add: boot_simps hurd_kernel_def)

text \<open>
  C8: whenever the \<^verbatim>\<open>uname\<close> call succeeds, \<^verbatim>\<open>get_platform_version\<close> builds a
  string, which is not null (it is a string value, at least the prefix long), and wraps
  it in the success response.
\<close>

theorem platform_version_non_null:
  assumes "fst (kernel w utsname_zero) = 0"
  shows "fst (get_platform_version w) =
      fl_method_success_response_new
        (fl_value_new_string (g_strdup_printf ''Linux %s'' [version (reported w)]))
   \<and> fl_value_new_string (g_strdup_printf ''Linux %s'' [version (reported w)]) \<noteq> FlNull
   \<and> g_strdup_printf ''Linux %s'' [version (reported w)] \<noteq> []
   \<and> fst (get_platform_version w) =
       FlMethodSuccessResponse (FlString (''Linux '' @ version (reported w)))"
  by (simp add: get_platform_version_eq fl_method_success_response_new_def
      fl_value_new_string_def)

theorem platform_version_non_null_witness:
  "fst (kernel (boot linux_kernel) utsname_zero) = 0
   \<and> fst (get_platform_version (boot linux_kernel)) =
       FlMethodSuccessResponse (FlString ''Linux #1 SMP'')"
  using platform_version_non_null [of "boot linux_kernel"]
  by (simp add: boot_simps linux_kernel_def fl_method_success_response_new_def
      fl_value_new_string_def)

section \<open>One response for every call\<close>

text \<open>
  C5: for every incoming method call, whatever its name, the handler reaches
  \<^verbatim>\<open>fl_method_call_respond\<close> exactly once, for that call and with a response that
  is not null. The events of the call come after those already in the trace.
\<close>

theorem exactly_one_response:
  "trace (structify_plugin_handle_method_call self w mc) = trace w @ new_events self w mc
   \<and> length (responses_of (new_events self w mc)) = 1
   \<and> (\<exists>r. responses_of (new_events self w mc) = [(mc, Some r)])"
proof (cases "method_name mc = ''getPlatformVersion''")
  case True
  then have "mc = gpv_call (method_args mc)" by (rule gpv_call_eq)
  then obtain a where mc: "mc = gpv_call a" ..
  have "responses_of (new_events self w mc) =
      [(mc, Some (FlMethodSuccessResponse (FlString (''Linux '' @ version (reported w)))))]"
    unfolding mc by (simp add: new_events_known)
  then show ?thesis by (simp add: trace_handle)
next
  case False
  then have "responses_of (new_events self w mc) =
      [(mc, Some FlMethodNotImplementedResponse)]"
    by (simp add: new_events_unknown)
  then show ?thesis by (simp add: trace_handle)
qed

text \<open>
  C6: for every method name and every two argument payloads, the responses to the two
  calls are the same, and so are the kernel queries made: the payload is never read.
\<close>

theorem arguments_ignored:
  "map snd (responses_of (new_events self w \<lparr>method_name = m, method_args = a1\<rparr>)) =
   map snd (responses_of (new_events self w \<lparr>method_name = m, method_args = a2\<rparr>))
   \<and> uname_calls_of (new_events self w \<lparr>method_name = m, method_args = a1\<rparr>) =
     uname_calls_of (new_events self w \<lparr>method_name = m, method_args = a2\<rparr>)
   \<and> kernel (structify_plugin_handle_method_call self w \<lparr>method_name = m, method_args = a1\<rparr>) =
     kernel (structify_plugin_handle_method_call self w \<lparr>method_name = m, method_args = a2\<rparr>)"
proof (cases "m = ''getPlatformVersion''")
  case True
  have "\<lparr>method_name = m, method_args = a\<rparr> = gpv_call a" for a
    using True by (simp add: gpv_call_def)
  then show ?thesis by (simp add: new_events_known kernel_handle)
next
  case False
  then show ?thesis by (simp add: new_events_unknown kernel_handle)
qed

text \<open>
  C4: two calls to \<open>getPlatformVersion\<close> against the same kernel state are answered
  with the same content, whatever else differs between the two worlds (the trace, the
  plugin object, the arguments). Each call makes its own kernel query and builds its
  own response from it; the handler leaves the kernel as it found it, so a second call
  right after the first meets the same kernel.
\<close>

theorem platform_version_deterministic:
  assumes "kernel w' = kernel w"
  shows "map snd (responses_of (new_events self w (gpv_call a))) =
      map snd (responses_of (new_events self' w' (gpv_call a')))
   \<and> uname_calls_of (new_events self w (gpv_call a)) = [fst (kernel w utsname_zero)]
   \<and> uname_calls_of (new_events self' w' (gpv_call a')) = [fst (kernel w utsname_zero)]
   \<and> kernel (structify_plugin_handle_method_call self w (gpv_call a)) = kernel w"
  using assms by (simp add: new_events_known kernel_handle)

theorem platform_version_deterministic_witness:
  "kernel (structify_plugin_handle_method_call StructifyPlugin (boot linux_kernel)
       (gpv_call FlNull)) = kernel (boot linux_kernel)
   \<and> trace (structify_plugin_handle_method_call StructifyPlugin (boot linux_kernel)
       (gpv_call FlNull)) \<noteq> trace (boot linux_kernel)
   \<and> map snd (responses_of (new_events StructifyPlugin (boot linux_kernel) (gpv_call FlNull))) =
       [Some (FlMethodSuccessResponse (FlString ''Linux #1 SMP''))]
   \<and> map snd (responses_of (new_events StructifyPlugin
         (structify_plugin_handle_method_call StructifyPlugin (boot linux_kernel)
            (gpv_call FlNull))
         (gpv_call (FlInt 7)))) =
       [Some (FlMethodSuccessResponse (FlString ''Linux #1 SMP''))]
   \<and> uname_calls_of (trace (structify_plugin_handle_method_call StructifyPlugin
         (structify_plugin_handle_method_call StructifyPlugin (boot linux_kernel)
            (gpv_call FlNull))
         (gpv_call (FlInt 7)))) = [0, 0]"
proof -
  let ?w = "boot linux_kernel"
  let ?w' = "structify_plugin_handle_method_call StructifyPlugin ?w (gpv_call FlNull)"
  have k: "kernel ?w' = kernel ?w" by (rule kernel_handle)
  have t: "trace ?w' \<noteq> trace ?w" by (simp add: handle_known boot_simps)
  have u: "uname_calls_of (trace (structify_plugin_handle_method_call StructifyPlugin ?w'
      (gpv_call (FlInt 7)))) = [0, 0]"
    by (simp add: handle_known boot_simps linux_kernel_def)
  have r: "map snd (responses_of (new_events StructifyPlugin ?w (gpv_call FlNull))) =
      [Some (FlMethodSuccessResponse (FlString ''Linux #1 SMP''))]"
    by (simp add: new_events_known boot_simps linux_kernel_def)
  from platform_version_deterministic [OF k, of StructifyPlugin FlNull StructifyPlugin "FlInt 7"]
  have "map snd (responses_of (new_events StructifyPlugin ?w (gpv_call FlNull))) =
      map snd (responses_of (new_events StructifyPlugin ?w' (gpv_call (FlInt 7))))"
    by blast
  with r have r': "map snd (responses_of (new_events StructifyPlugin ?w' (gpv_call (FlInt 7)))) =
      [Some (FlMethodSuccessResponse (FlString ''Linux #1 SMP''))]"
    by simp
  from k t r r' u show ?thesis by blast
qed

section \<open>A failing kernel query\<close>

text \<open>
  C7, as stated: when \<^verbatim>\<open>uname\<close> fails, the answer is whatever an uninitialised
  struct holds. The struct is not uninitialised: \<^verbatim>\<open>= {}\<close> zeroes it before the call.
  With a query that fails and writes nothing the payload is \<open>Linux\<close> and a space, and
  not what the bytes of an uninitialised struct would give.
\<close>

theorem failed_query_not_garbage_counterexample:
  "fst (kernel (boot failing_kernel) utsname_zero) \<noteq> 0
   \<and> fst (get_platform_version (boot failing_kernel)) =
       FlMethodSuccessResponse (FlString ''Linux '')
   \<and> fst (get_platform_version (boot failing_kernel)) \<noteq>
       FlMethodSuccessResponse (FlString (''Linux '' @ version garbage))"
  by (simp add: get_platform_version_eq boot_simps failing_kernel_def utsname_zero_def
      garbage_def)

text \<open>
  C7, amended: no error branch is distinguished from the kernel query. The return code
  of \<^verbatim>\<open>uname\<close> is ignored and the result is not validated: when the call fails, the
  response is still the success response, formatted from the \<^verbatim>\<open>version\<close> member of
  the zero-initialised struct as the failed call left it, and it is the response a
  successful call leaving the same struct would get.
\<close>

theorem failed_query_unvalidated:
  assumes "fst (kernel w utsname_zero) \<noteq> 0"
  shows "fst (get_platform_version w) =
      FlMethodSuccessResponse (FlString (''Linux '' @ version (snd (kernel w utsname_zero))))
   \<and> (\<forall>code msg details.
        fst (get_platform_version w) \<noteq> FlMethodErrorResponse code msg details)
   \<and> fst (get_platform_version w) \<noteq> FlMethodNotImplementedResponse
   \<and> fst (get_platform_version (w\<lparr>kernel := \<lambda>buf. (0, snd (kernel w buf))\<rparr>)) =
       fst (get_platform_version w)"
  by (simp add: get_platform_version_eq)

theorem failed_query_unvalidated_witness:
  "fst (kernel (boot flaky_kernel) utsname_zero) \<noteq> 0
   \<and> fst (get_platform_version (boot flaky_kernel)) =
       FlMethodSuccessResponse (FlString ''Linux #1 SMP'')"
  using failed_query_unvalidated [of "boot flaky_kernel"]
  by (simp add: boot_simps flaky_kernel_def linux_kernel_def)

text \<open>
  C10: the struct is zero-initialised before the call, so if \<^verbatim>\<open>uname\<close> fails and
  writes nothing, \<^verbatim>\<open>get_platform_version\<close> still returns the success response with
  the string made of the prefix and the empty \<^verbatim>\<open>version\<close> member of the zeroed
  struct. The failed query gives no error response and no not-implemented response.
\<close>

theorem failed_query_zeroed_struct:
  assumes "fst (kernel w utsname_zero) \<noteq> 0"
    and "snd (kernel w utsname_zero) = utsname_zero"
  shows "get_platform_version w =
      (FlMethodSuccessResponse (FlString ''Linux ''),
       w\<lparr>trace := trace w @ [Sys_uname (fst (kernel w utsname_zero))]\<rparr>)
   \<and> version utsname_zero = []
   \<and> (\<forall>code msg details.
        fst (get_platform_version w) \<noteq> FlMethodErrorResponse code msg details)
   \<and> fst (get_platform_version w) \<noteq> FlMethodNotImplementedResponse"
  using assms by (simp add: get_platform_version_eq utsname_zero_def)

theorem failed_query_zeroed_struct_witness:
  "fst (kernel (boot failing_kernel) utsname_zero) \<noteq> 0
   \<and> snd (kernel (boot failing_kernel) utsname_zero) = utsname_zero
   \<and> get_platform_version (boot failing_kernel) =
       (FlMethodSuccessResponse (FlString ''Linux ''),
        \<lparr>kernel = failing_kernel, trace = [Sys_uname (- 1)]\<rparr>)"
  using failed_query_zeroed_struct [of "boot failing_kernel"]
  by (simp add: boot_def failing_kernel_def)

end
